theory Spec2Isabelle
  imports Main "HOL-Library.Sublist"
begin

section \<open>JavaScript values\<close>

text \<open>
  The values that reach the components: the payloads of the wire service and the
  error objects handed to \<open>reduceErrors\<close>. An object is the list of its own
  properties in iteration order; a property read takes the first entry of a key.
  Numbers only matter through their truthiness, so a number is an integer or \<open>NaN\<close>.
  Values are finite trees: an array that contains itself, functions and symbols are not
  represented.
\<close>

datatype jsval =
    JNull
  | JUndefined
  | JBool bool
  | JNum int
  | JNaN
  | JStr string
  | JArr "jsval list"
  | JObj "(string \<times> jsval) list"

text \<open>JavaScript's \<open>ToBoolean\<close>, as used by \<open>if (x)\<close> and \<open>x ? a : b\<close>.\<close>

fun truthy :: "jsval \<Rightarrow> bool" where
  "truthy JNull = False"
| "truthy JUndefined = False"
| "truthy (JBool b) = b"
| "truthy (JNum n) = (n \<noteq> 0)"
| "truthy JNaN = False"
| "truthy (JStr s) = (s \<noteq> [])"
| "truthy (JArr xs) = True"
| "truthy (JObj kvs) = True"

fun is_nullish :: "jsval \<Rightarrow> bool" where
  "is_nullish JNull = True"
| "is_nullish JUndefined = True"
| "is_nullish v = False"

section \<open>The error reducer\<close>

text \<open>
  \<open>contactList.js\<close> imports \<open>reduceErrors\<close> from the module \<open>c/ldsUtils\<close>, which is
  not among the source files. The definitions of this section are modelled from
  section 4.1 of the specification (the shapes of section 3).
\<close>

text \<open>
  Modelled from the spec: "the error exposes a field" of the missing \<open>reduceErrors\<close>.
  The value \<open>v\<close> exposes a field \<open>k\<close>; only objects have named fields.
\<close>

fun field :: "string \<Rightarrow> jsval \<Rightarrow> jsval option" where
  "field k (JObj kvs) = map_of kvs k"
| "field k v = None"

text \<open>
  Modelled from the spec: the element shape of the missing \<open>reduceErrors\<close>, an object
  with a \<open>message\<close> string.
\<close>

definition message_of :: "jsval \<Rightarrow> string option" where
  "message_of v = (case field ''message'' v of Some (JStr m) \<Rightarrow> Some m | _ \<Rightarrow> None)"

text \<open>
  Modelled from the spec: an ordered sequence of objects each with a \<open>message\<close> string,
  mapped to the messages, as the missing \<open>reduceErrors\<close> reads it.
\<close>

fun message_seq :: "jsval \<Rightarrow> string list option" where
  "message_seq (JArr es) = those (map message_of es)"
| "message_seq v = None"

text \<open>
  Modelled from the spec: rule 2 of section 4.1 for the missing \<open>reduceErrors\<close>. The name of the page-errors field is
  not given by the specification; it is the parameter \<open>pk\<close>. The rule applies when the
  field holds a sequence of objects each with a \<open>message\<close> string (the shape of
  section 3) that has at least one element, and gives the messages in order.
\<close>

definition page_errors :: "string \<Rightarrow> jsval \<Rightarrow> string list option" where
  "page_errors pk v =
     (case field pk v of
        None \<Rightarrow> None
      | Some pe \<Rightarrow>
          (case message_seq pe of
             None \<Rightarrow> None
           | Some ms \<Rightarrow> if ms = [] then None else Some ms))"

text \<open>
  Modelled from the spec: rule 3 of section 4.1 for the missing \<open>reduceErrors\<close>. The field-errors field, named by the
  parameter \<open>fk\<close>, holds a mapping from field identifiers to sequences of objects with a
  \<open>message\<close>; the rule applies when the mapping has at least one entry, and the
  messages are emitted in the mapping's iteration order, then in the order within each
  field.
\<close>

definition field_errors :: "string \<Rightarrow> jsval \<Rightarrow> string list option" where
  "field_errors fk v =
     (case field fk v of
        Some (JObj entries) \<Rightarrow>
          if entries = [] then None
          else map_option concat (those (map (\<lambda>e. message_seq (snd e)) entries))
      | _ \<Rightarrow> None)"

text \<open>
  Modelled from the spec: rule 5 of the missing \<open>reduceErrors\<close>, a nested
  \<open>body.message\<close> string.
\<close>

definition body_message :: "jsval \<Rightarrow> string option" where
  "body_message v = (case field ''body'' v of None \<Rightarrow> None | Some b \<Rightarrow> message_of b)"

text \<open>
  Modelled from the spec: rules 4 and 7 of the missing \<open>reduceErrors\<close>, the input is
  itself an ordered sequence, or itself a string.
\<close>

fun is_array :: "jsval \<Rightarrow> bool" where
  "is_array (JArr xs) = True"
| "is_array v = False"

fun is_string :: "jsval \<Rightarrow> bool" where
  "is_string (JStr s) = True"
| "is_string v = False"

text \<open>
  Modelled from the spec: the function \<open>reduceErrors\<close> of the missing module
  \<open>c/ldsUtils\<close>, the eight rules of section 4.1 in their order, first match wins.
\<close>

fun reduceErrors :: "string \<Rightarrow> string \<Rightarrow> jsval \<Rightarrow> string list" where
  "reduceErrors pk fk error =
     (if is_nullish error then []
      else case page_errors pk error of
        Some ms \<Rightarrow> ms
      | None \<Rightarrow>
         (case field_errors fk error of
            Some ms \<Rightarrow> ms
          | None \<Rightarrow>
             (case error of
                JArr xs \<Rightarrow> concat (map (reduceErrors pk fk) xs)
              | _ \<Rightarrow>
                 (case body_message error of
                    Some m \<Rightarrow> [m]
                  | None \<Rightarrow>
                     (case message_of error of
                        Some m \<Rightarrow> [m]
                      | None \<Rightarrow>
                         (case error of
                            JStr s \<Rightarrow> [s]
                          | _ \<Rightarrow> [''Unknown error'']))))))"

section \<open>The host platform: toast events and components\<close>

text \<open>
  The options object passed to \<open>new ShowToastEvent({...})\<close>. \<open>mode\<close> is absent from the
  toast of \<open>ContactCreator\<close>.
\<close>

record toast =
  title :: string
  message :: string
  variant :: string
  mode :: "string option"

text \<open>
  A component extends \<open>LightningElement\<close>; what it has passed to \<open>this.dispatchEvent\<close>
  is kept in order in \<open>dispatched\<close>.
\<close>

record component =
  dispatched :: "toast list"

definition dispatchEvent :: "toast \<Rightarrow> 'a component_scheme \<Rightarrow> 'a component_scheme" where
  "dispatchEvent ev this = this\<lparr>dispatched := dispatched this @ [ev]\<rparr>"

section \<open>ContactCreator\<close>

text \<open>
  The imports from \<open>@salesforce/schema/...\<close> are references to an object or to a field of
  an object, provided by the platform.
\<close>

datatype schema_ref = ObjectRef string | FieldRef string string

definition CONTACT_OBJECT :: schema_ref where
  "CONTACT_OBJECT = ObjectRef ''Contact''"

definition FIRST_NAME_FIELD :: schema_ref where
  "FIRST_NAME_FIELD = FieldRef ''Contact'' ''FirstName''"

definition LAST_NAME_FIELD :: schema_ref where
  "LAST_NAME_FIELD = FieldRef ''Contact'' ''LastName''"

definition EMAIL_FIELD :: schema_ref where
  "EMAIL_FIELD = FieldRef ''Contact'' ''Email''"

record contact_creator = component +
  objectApiName :: schema_ref
  form_fields :: "schema_ref list"

text \<open>
  The class fields of \<open>ContactCreator\<close> as initialised (\<open>form_fields\<close> is the
  source's \<open>fields\<close>); nothing dispatched yet.
\<close>

definition ContactCreator :: contact_creator where
  "ContactCreator =
     \<lparr>dispatched = [],
      objectApiName = CONTACT_OBJECT,
      form_fields = [FIRST_NAME_FIELD, LAST_NAME_FIELD, EMAIL_FIELD]\<rparr>"

text \<open>
  The success event of \<open>lightning-record-form\<close>: \<open>event.detail.id\<close> is the identifier of
  the created record, a string.
\<close>

record success_detail =
  detail_id :: string

record success_event =
  detail :: success_detail

definition handleSuccess :: "success_event \<Rightarrow> contact_creator \<Rightarrow> contact_creator" where
  "handleSuccess event this =
     (let toastEvent =
            \<lparr>title = ''Contact created'',
             message = ''Record ID: '' @ detail_id (detail event),
             variant = ''success'',
             mode = None\<rparr>
      in dispatchEvent toastEvent this)"

section \<open>ContactList\<close>

record column =
  label :: string
  fieldName :: string
  type :: string
  sortable :: bool
  initialWidth :: nat

record contact_list = component +
  contacts :: jsval
  columns :: "column list"
  isLoading :: bool
  error :: jsval

text \<open>The class fields of \<open>ContactList\<close> as initialised: \<open>error\<close> has no initialiser.\<close>

definition ContactList :: contact_list where
  "ContactList =
     \<lparr>dispatched = [],
      contacts = JArr [],
      columns =
        [\<lparr>label = ''First Name'', fieldName = ''FirstName'', type = ''text'',
          sortable = True, initialWidth = 150\<rparr>,
         \<lparr>label = ''Last Name'', fieldName = ''LastName'', type = ''text'',
          sortable = True, initialWidth = 150\<rparr>,
         \<lparr>label = ''Email'', fieldName = ''Email'', type = ''email'',
          sortable = True, initialWidth = 250\<rparr>],
      isLoading = True,
      error = JUndefined\<rparr>"

text \<open>
  The getter \<open>errors\<close>. The imported \<open>reduceErrors\<close> is the parameter \<open>reduce\<close>: the getter
  can only apply it.
\<close>

definition errors :: "(jsval \<Rightarrow> string list) \<Rightarrow> contact_list \<Rightarrow> string list" where
  "errors reduce this = (if truthy (error this) then reduce (error this) else [])"

text \<open>\<open>showErrorToast(error)\<close>: the argument is not used by the body.\<close>

definition showErrorToast :: "jsval \<Rightarrow> contact_list \<Rightarrow> contact_list" where
  "showErrorToast err this =
     (let toastEvent =
            \<lparr>title = ''Error Loading Contacts'',
             message = ''Unable to retrieve contact data. Please try again.'',
             variant = ''error'',
             mode = Some ''sticky''\<rparr>
      in dispatchEvent toastEvent this)"

text \<open>The object the wire service passes to the callback.\<close>

record wire_result =
  result_data :: jsval
  result_error :: jsval

text \<open>
  \<open>wiredContacts(result)\<close>, the same in both versions of the file. The two console calls
  write to the browser console only, which is not part of the component; the read of
  \<open>this.contacts.length\<close> happens where \<open>this.contacts\<close> is truthy, so it cannot fail.
\<close>

definition wiredContacts :: "wire_result \<Rightarrow> contact_list \<Rightarrow> contact_list" where
  "wiredContacts result this =
     (let this1 = this\<lparr>isLoading := False\<rparr>
      in if truthy (result_data result) then
           this1\<lparr>contacts := result_data result, error := JUndefined\<rparr>
         else if truthy (result_error result) then
           showErrorToast (result_error result)
             (this1\<lparr>error := result_error result, contacts := JArr []\<rparr>)
         else this1)"

section \<open>Properties of the error reducer\<close>

declare reduceErrors.simps [simp del]

subsection \<open>Auxiliary facts\<close>

lemma field_not_object: "(\<And>kvs. v \<noteq> JObj kvs) \<Longrightarrow> field k v = None"
  by (cases v) auto

lemma page_errors_not_object: "(\<And>kvs. v \<noteq> JObj kvs) \<Longrightarrow> page_errors pk v = None"
  by (simp add: page_errors_def field_not_object)

lemma field_errors_not_object: "(\<And>kvs. v \<noteq> JObj kvs) \<Longrightarrow> field_errors fk v = None"
  by (simp add: field_errors_def field_not_object)

lemma body_message_not_object: "(\<And>kvs. v \<noteq> JObj kvs) \<Longrightarrow> body_message v = None"
  by (simp add: body_message_def field_not_object)

lemma message_of_not_object: "(\<And>kvs. v \<noteq> JObj kvs) \<Longrightarrow> message_of v = None"
  by (simp add: message_of_def field_not_object)

lemmas not_object_simps =
  page_errors_not_object field_errors_not_object body_message_not_object message_of_not_object

lemma reduceErrors_other:
  "v = JBool b \<or> v = JNum n \<or> v = JNaN \<Longrightarrow> reduceErrors pk fk v = [''Unknown error'']"
  by (auto simp: reduceErrors.simps [of pk fk v] not_object_simps)

lemma reduceErrors_JStr: "reduceErrors pk fk (JStr s) = [s]"
  by (simp add: reduceErrors.simps [of pk fk "JStr s"] not_object_simps)

lemma reduceErrors_JArr: "reduceErrors pk fk (JArr xs) = concat (map (reduceErrors pk fk) xs)"
  by (simp add: reduceErrors.simps [of pk fk "JArr xs"] not_object_simps)

lemma reduceErrors_JObj:
  "reduceErrors pk fk (JObj kvs) =
     (case page_errors pk (JObj kvs) of
        Some ms \<Rightarrow> ms
      | None \<Rightarrow>
         (case field_errors fk (JObj kvs) of
            Some ms \<Rightarrow> ms
          | None \<Rightarrow>
             (case body_message (JObj kvs) of
                Some m \<Rightarrow> [m]
              | None \<Rightarrow>
                 (case message_of (JObj kvs) of
                    Some m \<Rightarrow> [m]
                  | None \<Rightarrow> [''Unknown error'']))))"
  by (simp add: reduceErrors.simps [of pk fk "JObj kvs"] split: option.splits)

subsection \<open>Precedence of the rules\<close>

text \<open>
  C2. An input that satisfies more than one recognised shape is resolved by the earliest
  applicable rule: page-level errors, then field-level errors, then the list rule, then
  \<open>body.message\<close>, then the top-level \<open>message\<close>, then the plain string, then the
  fallback. Each line below gives the result of a rule under the only condition that the
  earlier rules do not apply, whatever the later ones would do; in particular an object
  with a non-empty page-errors field and a top-level \<open>message\<close> is reduced to its page
  messages.
\<close>

theorem reduceErrors_precedence:
  "(page_errors pk v = Some ms \<longrightarrow> reduceErrors pk fk v = ms) \<and>
   (page_errors pk v = Some ms \<and> message_of v = Some m \<longrightarrow> reduceErrors pk fk v = ms) \<and>
   (page_errors pk v = None \<and> field_errors fk v = Some ms \<longrightarrow> reduceErrors pk fk v = ms) \<and>
   (page_errors pk v = None \<and> field_errors fk v = None \<and> v = JArr xs \<longrightarrow>
      reduceErrors pk fk v = concat (map (reduceErrors pk fk) xs)) \<and>
   (page_errors pk v = None \<and> field_errors fk v = None \<and> \<not> is_array v \<and>
    body_message v = Some m \<longrightarrow> reduceErrors pk fk v = [m]) \<and>
   (page_errors pk v = None \<and> field_errors fk v = None \<and> \<not> is_array v \<and>
    body_message v = None \<and> message_of v = Some m \<longrightarrow> reduceErrors pk fk v = [m]) \<and>
   (page_errors pk v = None \<and> field_errors fk v = None \<and> \<not> is_array v \<and>
    body_message v = None \<and> message_of v = None \<and> v = JStr s \<longrightarrow>
      reduceErrors pk fk v = [s]) \<and>
   (\<not> is_nullish v \<and> page_errors pk v = None \<and> field_errors fk v = None \<and> \<not> is_array v \<and>
    body_message v = None \<and> message_of v = None \<and> \<not> is_string v \<longrightarrow>
      reduceErrors pk fk v = [''Unknown error''])"
proof (cases v)
  case (JObj kvs)
  then show ?thesis by (simp add: reduceErrors_JObj)
qed (simp_all add: reduceErrors_JArr reduceErrors_JStr reduceErrors_other not_object_simps)

text \<open>
  Three objects that satisfy several shapes at once: page errors beside a field-errors
  mapping, a body and a \<open>message\<close>; a field-errors mapping beside a body and a
  \<open>message\<close>; a \<open>body.message\<close> beside a \<open>message\<close>.
\<close>

theorem reduceErrors_precedence_witness:
  "page_errors ''pageErrors''
     (JObj [(''message'', JStr ''m''),
            (''body'', JObj [(''message'', JStr ''b'')]),
            (''fieldErrors'', JObj [(''Email'', JArr [JObj [(''message'', JStr ''invalid'')]])]),
            (''pageErrors'', JArr [JObj [(''message'', JStr ''a'')], JObj [(''message'', JStr ''b'')]])])
     = Some [''a'', ''b''] \<and>
   message_of
     (JObj [(''message'', JStr ''m''),
            (''body'', JObj [(''message'', JStr ''b'')]),
            (''fieldErrors'', JObj [(''Email'', JArr [JObj [(''message'', JStr ''invalid'')]])]),
            (''pageErrors'', JArr [JObj [(''message'', JStr ''a'')], JObj [(''message'', JStr ''b'')]])])
     = Some ''m'' \<and>
   reduceErrors ''pageErrors'' ''fieldErrors''
     (JObj [(''message'', JStr ''m''),
            (''body'', JObj [(''message'', JStr ''b'')]),
            (''fieldErrors'', JObj [(''Email'', JArr [JObj [(''message'', JStr ''invalid'')]])]),
            (''pageErrors'', JArr [JObj [(''message'', JStr ''a'')], JObj [(''message'', JStr ''b'')]])])
     = [''a'', ''b''] \<and>
   reduceErrors ''pageErrors'' ''fieldErrors''
     (JObj [(''message'', JStr ''m''),
            (''body'', JObj [(''message'', JStr ''b'')]),
            (''fieldErrors'', JObj [(''Email'', JArr [JObj [(''message'', JStr ''invalid'')]])])])
     = [''invalid''] \<and>
   reduceErrors ''pageErrors'' ''fieldErrors''
     (JObj [(''message'', JStr ''m''), (''body'', JObj [(''message'', JStr ''b'')])])
     = [''b'']"
  using reduceErrors_precedence
    [of "''pageErrors''"
      "JObj [(''message'', JStr ''m''),
            (''body'', JObj [(''message'', JStr ''b'')]),
            (''fieldErrors'', JObj [(''Email'', JArr [JObj [(''message'', JStr ''invalid'')]])]),
            (''pageErrors'', JArr [JObj [(''message'', JStr ''a'')], JObj [(''message'', JStr ''b'')]])]"
      "[''a'', ''b'']" "''fieldErrors''" "''m''"]
    reduceErrors_precedence
    [of "''pageErrors''"
      "JObj [(''message'', JStr ''m''),
            (''body'', JObj [(''message'', JStr ''b'')]),
            (''fieldErrors'', JObj [(''Email'', JArr [JObj [(''message'', JStr ''invalid'')]])])]"
      "[''invalid'']" "''fieldErrors''"]
    reduceErrors_precedence
    [of "''pageErrors''"
      "JObj [(''message'', JStr ''m''), (''body'', JObj [(''message'', JStr ''b'')])]"
      "[]" "''fieldErrors''" "''b''"]
  by (simp add: page_errors_def field_errors_def body_message_def message_of_def)

subsection \<open>Null and undefined\<close>

text \<open>
  C4. For every input that is \<open>null\<close> or \<open>undefined\<close>, \<open>reduceErrors\<close> returns the
  empty sequence.
\<close>

theorem reduceErrors_nullish: "is_nullish v \<Longrightarrow> reduceErrors pk fk v = []"
  by (simp add: reduceErrors.simps [of pk fk v])

theorem reduceErrors_nullish_witness:
  "is_nullish JNull \<and> reduceErrors ''pageErrors'' ''fieldErrors'' JNull = [] \<and>
   is_nullish JUndefined \<and> reduceErrors ''pageErrors'' ''fieldErrors'' JUndefined = []"
  using reduceErrors_nullish [of JNull "''pageErrors''" "''fieldErrors''"]
    reduceErrors_nullish [of JUndefined "''pageErrors''" "''fieldErrors''"]
  by simp

subsection \<open>Sequences\<close>

text \<open>
  C5. An input that is itself a sequence is reduced element by element, each element by
  the same function, and the results are concatenated in order; a sequence nested in a
  sequence is flattened into the strings of its own elements. The list of the
  specification, \<open>[{message: "x"}, "y", {body: {message: "z"}}]\<close>, gives
  \<open>["x", "y", "z"]\<close>.
\<close>

theorem reduceErrors_list:
  "reduceErrors pk fk (JArr xs) = concat (map (reduceErrors pk fk) xs) \<and>
   reduceErrors pk fk (JArr (JArr ys # xs)) =
     reduceErrors pk fk (JArr ys) @ reduceErrors pk fk (JArr xs) \<and>
   reduceErrors pk fk
     (JArr [JObj [(''message'', JStr ''x'')], JStr ''y'',
            JObj [(''body'', JObj [(''message'', JStr ''z'')])]]) = [''x'', ''y'', ''z'']"
  by (simp add: reduceErrors_JArr reduceErrors_JStr reduceErrors_JObj
      page_errors_def field_errors_def body_message_def message_of_def)

subsection \<open>The fallback\<close>

text \<open>
  C6. The fallback is the last rule of the chain, reached after rule 1 has taken \<open>null\<close>
  and \<open>undefined\<close>: every such input that matches none of the recognised shapes (the
  page and field rules do not apply, it is not a sequence, has no \<open>body.message\<close>, no
  top-level \<open>message\<close> and is not a string) is reduced to the single string
  \<open>Unknown error\<close>; the object \<open>{foo: 1}\<close> is one.
\<close>

theorem reduceErrors_fallback:
  assumes "\<not> is_nullish v"
    and "page_errors pk v = None" and "field_errors fk v = None" and "\<not> is_array v"
    and "body_message v = None" and "message_of v = None" and "\<not> is_string v"
  shows "reduceErrors pk fk v = [''Unknown error'']"
  using assms by (cases v) (simp_all add: reduceErrors_JObj reduceErrors_other)

theorem reduceErrors_fallback_witness:
  "\<not> is_nullish (JObj [(''foo'', JNum 1)]) \<and>
   page_errors ''pageErrors'' (JObj [(''foo'', JNum 1)]) = None \<and>
   field_errors ''fieldErrors'' (JObj [(''foo'', JNum 1)]) = None \<and>
   \<not> is_array (JObj [(''foo'', JNum 1)]) \<and>
   body_message (JObj [(''foo'', JNum 1)]) = None \<and>
   message_of (JObj [(''foo'', JNum 1)]) = None \<and>
   \<not> is_string (JObj [(''foo'', JNum 1)]) \<and>
   reduceErrors ''pageErrors'' ''fieldErrors'' (JObj [(''foo'', JNum 1)]) = [''Unknown error'']"
  using reduceErrors_fallback [of "JObj [(''foo'', JNum 1)]" "''pageErrors''" "''fieldErrors''"]
  by (simp add: page_errors_def field_errors_def body_message_def message_of_def)

section \<open>Properties of the components\<close>

subsection \<open>Auxiliary facts\<close>

lemma wiredContacts_error_aux:
  "\<not> truthy (result_data result) \<Longrightarrow> truthy (result_error result) \<Longrightarrow>
   wiredContacts result this =
     this\<lparr>dispatched := dispatched this @
            [\<lparr>title = ''Error Loading Contacts'',
              message = ''Unable to retrieve contact data. Please try again.'',
              variant = ''error'',
              mode = Some ''sticky''\<rparr>],
          contacts := JArr [], isLoading := False, error := result_error result\<rparr>"
  by (simp add: wiredContacts_def showErrorToast_def dispatchEvent_def)

lemma wiredContacts_data_aux:
  "truthy (result_data result) \<Longrightarrow>
   wiredContacts result this =
     this\<lparr>contacts := result_data result, isLoading := False, error := JUndefined\<rparr>"
  by (simp add: wiredContacts_def)

lemma truthy_not_nullish: "truthy v \<Longrightarrow> \<not> is_nullish v"
  by (cases v) simp_all

subsection \<open>The message of the error toast\<close>

text \<open>
  C7 as stated: when the list fetch delivers an error, the strings produced by
  \<open>reduceErrors\<close> are what the component passes into the \<open>message\<close> field of the
  notification. For the error \<open>"boom"\<close> the reducer produces \<open>["boom"]\<close>, and the message
  of the toast dispatched by \<open>wiredContacts\<close> is not among these strings.
\<close>

theorem toast_message_counterexample:
  "message (last (dispatched
      (wiredContacts \<lparr>result_data = JUndefined, result_error = JStr ''boom''\<rparr> ContactList)))
   \<notin> set (reduceErrors ''pageErrors'' ''fieldErrors'' (JStr ''boom''))"
  by (simp add: wiredContacts_error_aux reduceErrors_JStr)

text \<open>
  C7, amended. When the list fetch delivers an error (and no data), the component
  dispatches one toast whose \<open>message\<close> is the fixed text
  \<open>Unable to retrieve contact data. Please try again.\<close>, whatever the error is; the
  strings produced by the reducer from the delivered error are what the getter \<open>errors\<close>
  returns afterwards. The reducer itself is a function from a value to a list of strings
  and dispatches nothing.
\<close>

theorem toast_message_fixed:
  assumes "truthy (result_error result)" and "\<not> truthy (result_data result)"
  shows "map message (drop (length (dispatched this)) (dispatched (wiredContacts result this))) =
       [''Unable to retrieve contact data. Please try again.''] \<and>
     errors reduce (wiredContacts result this) = reduce (result_error result)"
  using assms by (simp add: wiredContacts_error_aux errors_def)

theorem toast_message_fixed_witness:
  "truthy (result_error \<lparr>result_data = JUndefined, result_error = JStr ''boom''\<rparr>) \<and>
   \<not> truthy (result_data \<lparr>result_data = JUndefined, result_error = JStr ''boom''\<rparr>) \<and>
   map message (dispatched
      (wiredContacts \<lparr>result_data = JUndefined, result_error = JStr ''boom''\<rparr> ContactList)) =
     [''Unable to retrieve contact data. Please try again.''] \<and>
   errors (reduceErrors ''pageErrors'' ''fieldErrors'')
      (wiredContacts \<lparr>result_data = JUndefined, result_error = JStr ''boom''\<rparr> ContactList) =
     [''boom'']"
  using toast_message_fixed
    [of "\<lparr>result_data = JUndefined, result_error = JStr ''boom''\<rparr>" ContactList
      "reduceErrors ''pageErrors'' ''fieldErrors''"]
  by (simp add: ContactList_def reduceErrors_JStr)

subsection \<open>The record-creation form\<close>

text \<open>
  C8. \<open>ContactCreator\<close> is configured with the entity type \<open>Contact\<close> and the ordered
  fields first name, last name, email. When the form reports a created record,
  \<open>handleSuccess\<close> receives its identifier in \<open>event.detail.id\<close> and dispatches exactly
  one toast, of variant \<open>success\<close>, whose message is \<open>Record ID: \<close> followed by that
  identifier; nothing else of the component changes.
\<close>

theorem contact_creator_success:
  "objectApiName ContactCreator = CONTACT_OBJECT \<and>
   form_fields ContactCreator = [FIRST_NAME_FIELD, LAST_NAME_FIELD, EMAIL_FIELD] \<and>
   handleSuccess event this =
     this\<lparr>dispatched := dispatched this @
       [\<lparr>title = ''Contact created'',
         message = ''Record ID: '' @ detail_id (detail event),
         variant = ''success'',
         mode = None\<rparr>]\<rparr> \<and>
   suffix (detail_id (detail event)) (message (last (dispatched (handleSuccess event this))))"
  by (simp add: ContactCreator_def handleSuccess_def dispatchEvent_def suffix_def)

subsection \<open>The wire callback\<close>

text \<open>
  C9. When \<open>wiredContacts\<close> is delivered a result with an error and no data (a truthy
  \<open>result.error\<close>, a falsy \<open>result.data\<close>), then afterwards \<open>contacts\<close> is the empty
  array, \<open>error\<close> is the delivered error, \<open>isLoading\<close> is false, and exactly one toast,
  of variant \<open>error\<close>, has been added to what the component dispatched. When it is
  delivered data (a truthy \<open>result.data\<close>), \<open>error\<close> is \<open>undefined\<close> afterwards.
\<close>

theorem wiredContacts_state:
  "(truthy (result_error result) \<and> \<not> truthy (result_data result) \<longrightarrow>
      contacts (wiredContacts result this) = JArr [] \<and>
      error (wiredContacts result this) = result_error result \<and>
      isLoading (wiredContacts result this) = False \<and>
      dispatched (wiredContacts result this) =
        dispatched this @
          [\<lparr>title = ''Error Loading Contacts'',
            message = ''Unable to retrieve contact data. Please try again.'',
            variant = ''error'',
            mode = Some ''sticky''\<rparr>]) \<and>
   (truthy (result_data result) \<longrightarrow>
      error (wiredContacts result this) = JUndefined)"
  by (simp add: wiredContacts_error_aux wiredContacts_data_aux)

theorem wiredContacts_state_witness:
  "truthy (JObj [(''status'', JNum 500)]) \<and> \<not> truthy JUndefined \<and>
   contacts (wiredContacts \<lparr>result_data = JUndefined, result_error = JObj [(''status'', JNum 500)]\<rparr>
      ContactList) = JArr [] \<and>
   error (wiredContacts \<lparr>result_data = JUndefined, result_error = JObj [(''status'', JNum 500)]\<rparr>
      ContactList) = JObj [(''status'', JNum 500)] \<and>
   isLoading (wiredContacts \<lparr>result_data = JUndefined, result_error = JObj [(''status'', JNum 500)]\<rparr>
      ContactList) = False \<and>
   length (dispatched
     (wiredContacts \<lparr>result_data = JUndefined, result_error = JObj [(''status'', JNum 500)]\<rparr>
      ContactList)) = 1 \<and>
   truthy (JArr []) \<and>
   error (wiredContacts \<lparr>result_data = JArr [], result_error = JUndefined\<rparr>
      (ContactList\<lparr>error := JStr ''stale''\<rparr>)) = JUndefined"
  using wiredContacts_state
    [of "\<lparr>result_data = JUndefined, result_error = JObj [(''status'', JNum 500)]\<rparr>" ContactList]
    wiredContacts_state
    [of "\<lparr>result_data = JArr [], result_error = JUndefined\<rparr>" "ContactList\<lparr>error := JStr ''stale''\<rparr>"]
  by (simp add: ContactList_def)

subsection \<open>The getter \<open>errors\<close>\<close>

text \<open>
  C10. The getter \<open>errors\<close> returns the empty array when the component's \<open>error\<close> is
  falsy, and the reducer's result on \<open>error\<close> otherwise. It never applies the reducer to
  \<open>null\<close> or \<open>undefined\<close>: the argument it passes is not nullish, and what the getter
  returns does not depend on what the reducer would do on those two values.
\<close>

theorem errors_getter:
  "(\<not> truthy (error this) \<longrightarrow> errors reduce this = []) \<and>
   (truthy (error this) \<longrightarrow>
      errors reduce this = reduce (error this) \<and> \<not> is_nullish (error this)) \<and>
   ((\<forall>v. \<not> is_nullish v \<longrightarrow> reduce v = reduce' v) \<longrightarrow> errors reduce this = errors reduce' this)"
  using truthy_not_nullish [of "error this"] by (auto simp: errors_def)

text \<open>
  The second reducer differs from the first on \<open>null\<close> and \<open>undefined\<close> only, and the
  getter returns the same with both.
\<close>

theorem errors_getter_witness:
  "\<not> truthy (error ContactList) \<and>
   errors (reduceErrors ''pageErrors'' ''fieldErrors'') ContactList = [] \<and>
   truthy (error (ContactList\<lparr>error := JStr ''boom''\<rparr>)) \<and>
   errors (reduceErrors ''pageErrors'' ''fieldErrors'') (ContactList\<lparr>error := JStr ''boom''\<rparr>) =
     reduceErrors ''pageErrors'' ''fieldErrors'' (JStr ''boom'') \<and>
   errors (reduceErrors ''pageErrors'' ''fieldErrors'') (ContactList\<lparr>error := JStr ''boom''\<rparr>) =
   errors (\<lambda>v. if is_nullish v then [''never''] else reduceErrors ''pageErrors'' ''fieldErrors'' v)
     (ContactList\<lparr>error := JStr ''boom''\<rparr>)"
proof -
  let ?r = "reduceErrors ''pageErrors'' ''fieldErrors''"
  let ?r' = "\<lambda>v. if is_nullish v then [''never''] else ?r v"
  have agree: "\<forall>v. \<not> is_nullish v \<longrightarrow> ?r v = ?r' v"
    by simp
  have absent: "\<not> truthy (error ContactList)"
    by (simp add: ContactList_def)
  have present: "truthy (error (ContactList\<lparr>error := JStr ''boom''\<rparr>))"
    by simp
  have boom: "error (ContactList\<lparr>error := JStr ''boom''\<rparr>) = JStr ''boom''"
    by simp
  note g1 = errors_getter [of ContactList ?r ?r']
  note g2 = errors_getter [of "ContactList\<lparr>error := JStr ''boom''\<rparr>" ?r ?r']
  have e1: "errors ?r ContactList = []"
    using g1 absent by (elim conjE) (erule mp)
  have e2: "errors ?r (ContactList\<lparr>error := JStr ''boom''\<rparr>) = ?r (JStr ''boom'')"
    using g2 present boom by (elim conjE) simp
  have e3: "errors ?r (ContactList\<lparr>error := JStr ''boom''\<rparr>) =
      errors ?r' (ContactList\<lparr>error := JStr ''boom''\<rparr>)"
    using g2 agree by (elim conjE) (erule mp)
  show ?thesis
    using absent present e1 e2 e3 by (intro conjI)
qed

end
